theory Spec2Isabelle
  imports Complex_Main
begin

section \<open>Mortgage affordability calculator (mortgage_analyzer.py)\<close>

text \<open>
  The calculator works on Python floats. They are modelled as \<^typ>\<open>real\<close>: the
  arithmetic is exact, so rounding, overflow of \<open>**\<close>, infinities and NaN are outside
  the model. What Python does on a division by zero is inside it: a float division
  whose divisor is zero raises \<open>ZeroDivisionError\<close>, it does not produce an infinity.
  A function that can raise returns \<open>error + 'a\<close>, with \<open>Inl\<close> for the exception.
\<close>

subsection \<open>Errors and division\<close>

datatype error = ZeroDivisionError

text \<open>Python's \<open>a / b\<close> on floats.\<close>

definition truediv :: "real \<Rightarrow> real \<Rightarrow> error + real" where
  "truediv a b = (if b = 0 then Inl ZeroDivisionError else Inr (a / b))"

subsection \<open>Constants and the result dictionary\<close>

definition INCOME_MULTIPLIER :: real where
  "INCOME_MULTIPLIER = 4.5"

definition MORTGAGE_TERM_YEARS :: nat where
  "MORTGAGE_TERM_YEARS = 30"

text \<open>
  The inner dictionaries of \<open>scenarios\<close> in \<open>run_scenario_testing\<close> have the two keys
  \<open>rate\<close> and \<open>deposit\<close>. The record is declared first, so that the unqualified
  \<open>deposit\<close> below is the key of the result dictionary.
\<close>

record params =
  rate :: real
  deposit :: real

text \<open>
  The dictionary \<open>results\<close> returned by \<open>calculate_affordability\<close>: a fixed set of
  eight keys, each a float.
\<close>

record results =
  income :: real
  deposit :: real
  monthly_debts :: real
  interest_rate :: real
  max_loan_amount :: real
  affordable_property_price :: real
  estimated_monthly_payment :: real
  dti_ratio :: real

subsection \<open>calculate_affordability\<close>

text \<open>
  The divisions by the literals \<open>100\<close> and \<open>12\<close> cannot raise and are written with
  \<open>/\<close>; the three divisions by a computed value go through \<^const>\<open>truediv\<close>. The
  parameters carry a prime where the source's name is also a key of the result.
\<close>

definition calculate_affordability :: "real \<Rightarrow> real \<Rightarrow> real \<Rightarrow> real \<Rightarrow> error + results" where
  "calculate_affordability income' deposit' monthly_debts' interest_rate_annual =
    (let max_loan_from_income = income' * INCOME_MULTIPLIER;
         affordable_property_price' = max_loan_from_income + deposit';
         loan_amount = max_loan_from_income;
         monthly_interest_rate = (interest_rate_annual / 100) / 12;
         number_of_payments = MORTGAGE_TERM_YEARS * 12
     in case (if monthly_interest_rate > 0
              then truediv
                     (loan_amount *
                        (monthly_interest_rate * (1 + monthly_interest_rate) ^ number_of_payments))
                     ((1 + monthly_interest_rate) ^ number_of_payments - 1)
              else truediv loan_amount (real number_of_payments)) of
          Inl e \<Rightarrow> Inl e
        | Inr monthly_payment \<Rightarrow>
            (let total_monthly_outgoings = monthly_payment + monthly_debts';
                 gross_monthly_income = income' / 12
             in case truediv total_monthly_outgoings gross_monthly_income of
                  Inl e \<Rightarrow> Inl e
                | Inr ratio \<Rightarrow>
                    Inr \<lparr>income = income',
                         deposit = deposit',
                         monthly_debts = monthly_debts',
                         interest_rate = interest_rate_annual,
                         max_loan_amount = max_loan_from_income,
                         affordable_property_price = affordable_property_price',
                         estimated_monthly_payment = monthly_payment,
                         dti_ratio = ratio * 100\<rparr>))"

subsection \<open>run_scenario_testing\<close>

text \<open>
  The dictionary \<open>scenarios\<close> is iterated in insertion order, so it is an association
  list. Characters are code points: \<open>0xA3\<close> is the pound sign of the third label,
  \<open>0x0A\<close> the newline and \<open>0x27\<close> the apostrophe of the printed messages.
\<close>

definition scenarios :: "real \<Rightarrow> real \<Rightarrow> (string \<times> params) list" where
  "scenarios base_rate deposit' =
    [(''Base Case'', \<lparr>rate = base_rate, deposit = deposit'\<rparr>),
     (''High Interest Rate (+1.5%)'', \<lparr>rate = base_rate + 1.5, deposit = deposit'\<rparr>),
     (''Lower Deposit (-'' @ [CHR 0xA3] @ ''10,000)'',
        \<lparr>rate = base_rate, deposit = deposit' - 10000\<rparr>)]"

definition header_message :: string where
  "header_message = CHR 0x0A # ''--- Running Scenario Analysis ---''"

definition skip_message :: "string \<Rightarrow> string" where
  "skip_message name =
    CHR 0x0A # ''Skipping '' @ [CHR 0x27] @ name @ [CHR 0x27] @
      '' scenario: Deposit cannot be negative.''"

text \<open>
  The \<open>for\<close> loop. The state is what the loop changes: the lines printed so far and
  the list \<open>scenario_results\<close>. The calculator is a parameter \<open>calc\<close> of the loop, so
  that "the calculator is not called for a skipped scenario" can be stated;
  \<open>run_scenario_testing\<close> passes \<^const>\<open>calculate_affordability\<close>. An exception of
  the calculator ends the loop; what was printed before it stays printed.
\<close>

fun scenario_loop ::
  "(real \<Rightarrow> real \<Rightarrow> real \<Rightarrow> real \<Rightarrow> error + results) \<Rightarrow> real \<Rightarrow> real \<Rightarrow>
   (string \<times> params) list \<Rightarrow> string list \<Rightarrow> (string \<times> results) list \<Rightarrow>
   string list \<times> (error + (string \<times> results) list)" where
  "scenario_loop calc income' monthly_debts' [] out scenario_results =
     (out, Inr scenario_results)"
| "scenario_loop calc income' monthly_debts' ((name, ps) # rest) out scenario_results =
     (if params.deposit ps < 0
      then scenario_loop calc income' monthly_debts' rest
             (out @ [skip_message name]) scenario_results
      else case calc income' (params.deposit ps) monthly_debts' (params.rate ps) of
             Inl e \<Rightarrow> (out, Inl e)
           | Inr res \<Rightarrow>
               scenario_loop calc income' monthly_debts' rest
                 out (scenario_results @ [(name, res)]))"

text \<open>The function returns the printed lines and the value returned or raised.\<close>

definition run_scenario_testing ::
  "real \<Rightarrow> real \<Rightarrow> real \<Rightarrow> real \<Rightarrow> string list \<times> (error + (string \<times> results) list)" where
  "run_scenario_testing income' deposit' monthly_debts' base_rate =
     scenario_loop calculate_affordability income' monthly_debts'
       (scenarios base_rate deposit') [header_message] []"

section \<open>Properties of calculate_affordability\<close>

text \<open>The divisor of the amortization formula is positive for a positive monthly rate.\<close>

lemma amortization_denominator_pos:
  fixes r :: real
  assumes "0 < r"
  shows "0 < (1 + r) ^ 360 - 1"
proof -
  have "1 < 1 + r" using assms by simp
  then have "1 < (1 + r) ^ 360" by (rule one_less_power) simp
  then show ?thesis by simp
qed


lemma number_of_payments_eq: "MORTGAGE_TERM_YEARS * 12 = 360"
  by (simp add: MORTGAGE_TERM_YEARS_def)

text \<open>
  With a nonzero income the calculator returns: the denominator of the amortization
  formula is positive for a positive rate, and no other divisor can be zero.
\<close>

lemma calculate_affordability_pos_rate:
  assumes "0 < r" and "inc \<noteq> 0"
  shows "calculate_affordability inc d m r =
    Inr \<lparr>income = inc, deposit = d, monthly_debts = m, interest_rate = r,
         max_loan_amount = inc * 4.5,
         affordable_property_price = inc * 4.5 + d,
         estimated_monthly_payment =
           inc * 4.5 * (r / 100 / 12 * (1 + r / 100 / 12) ^ 360) / ((1 + r / 100 / 12) ^ 360 - 1),
         dti_ratio =
           (inc * 4.5 * (r / 100 / 12 * (1 + r / 100 / 12) ^ 360) / ((1 + r / 100 / 12) ^ 360 - 1) + m)
             / (inc / 12) * 100\<rparr>"
proof -
  define q where "q = r / 100 / 12"
  have q: "0 < q" using assms(1) by (simp add: q_def)
  have nz: "(1 + q) ^ 360 - 1 \<noteq> 0"
    using amortization_denominator_pos [OF q] by simp
  have "calculate_affordability inc d m r =
    Inr \<lparr>income = inc, deposit = d, monthly_debts = m, interest_rate = r,
         max_loan_amount = inc * 4.5,
         affordable_property_price = inc * 4.5 + d,
         estimated_monthly_payment = inc * 4.5 * (q * (1 + q) ^ 360) / ((1 + q) ^ 360 - 1),
         dti_ratio = (inc * 4.5 * (q * (1 + q) ^ 360) / ((1 + q) ^ 360 - 1) + m) / (inc / 12) * 100\<rparr>"
    unfolding calculate_affordability_def Let_def number_of_payments_eq INCOME_MULTIPLIER_def
      q_def [symmetric]
    using q nz assms(2) by (simp add: truediv_def)
  then show ?thesis by (simp only: q_def)
qed

lemma calculate_affordability_nonpos_rate:
  assumes "r \<le> 0" and "inc \<noteq> 0"
  shows "calculate_affordability inc d m r =
    Inr \<lparr>income = inc, deposit = d, monthly_debts = m, interest_rate = r,
         max_loan_amount = inc * 4.5,
         affordable_property_price = inc * 4.5 + d,
         estimated_monthly_payment = inc * 4.5 / 360,
         dti_ratio = (inc * 4.5 / 360 + m) / (inc / 12) * 100\<rparr>"
  using assms
  by (simp add: calculate_affordability_def truediv_def Let_def INCOME_MULTIPLIER_def
      number_of_payments_eq)

lemma calculate_affordability_returns:
  assumes "inc \<noteq> 0"
  shows "\<exists>res. calculate_affordability inc d m r = Inr res"
proof (cases "0 < r")
  case True
  then show ?thesis using assms calculate_affordability_pos_rate by blast
next
  case False
  then have "r \<le> 0" by simp
  then show ?thesis using assms calculate_affordability_nonpos_rate by blast
qed

















section \<open>Properties of run_scenario_testing\<close>

text \<open>
  Three facts about the loop over any list of scenarios, by induction on the list with
  the printed lines and the accumulated results generalised: the labels returned are
  those of the scenarios whose deposit is not negative, in order; the lines printed
  are the skip messages of the others; and the outcome does not depend on what the
  calculator would do on a negative deposit, since it is not called there.
\<close>

lemma scenario_loop_labels:
  "scenario_loop calc inc m xs out acc = (out', Inr rs) \<Longrightarrow>
   map fst rs = map fst acc @ map fst (filter (\<lambda>(name, ps). \<not> params.deposit ps < 0) xs)"
proof (induction xs arbitrary: out acc)
  case Nil
  then show ?case by simp
next
  case (Cons x xs)
  obtain name ps where x: "x = (name, ps)" by (cases x)
  show ?case
  proof (cases "params.deposit ps < 0")
    case True
    with Cons.prems x have "scenario_loop calc inc m xs (out @ [skip_message name]) acc = (out', Inr rs)"
      by simp
    from Cons.IH [OF this] True x show ?thesis by simp
  next
    case False
    show ?thesis
    proof (cases "calc inc (params.deposit ps) m (params.rate ps)")
      case (Inl e)
      with Cons.prems x False show ?thesis by simp
    next
      case (Inr res)
      with Cons.prems x False
      have "scenario_loop calc inc m xs out (acc @ [(name, res)]) = (out', Inr rs)" by simp
      from Cons.IH [OF this] False x show ?thesis by simp
    qed
  qed
qed

lemma scenario_loop_skipped_printed:
  "scenario_loop calc inc m xs out acc = (out', Inr rs) \<Longrightarrow>
   out' = out @ map (\<lambda>(name, ps). skip_message name) (filter (\<lambda>(name, ps). params.deposit ps < 0) xs)"
proof (induction xs arbitrary: out acc)
  case Nil
  then show ?case by simp
next
  case (Cons x xs)
  obtain name ps where x: "x = (name, ps)" by (cases x)
  show ?case
  proof (cases "params.deposit ps < 0")
    case True
    with Cons.prems x have "scenario_loop calc inc m xs (out @ [skip_message name]) acc = (out', Inr rs)"
      by simp
    from Cons.IH [OF this] True x show ?thesis by simp
  next
    case False
    show ?thesis
    proof (cases "calc inc (params.deposit ps) m (params.rate ps)")
      case (Inl e)
      with Cons.prems x False show ?thesis by simp
    next
      case (Inr res)
      with Cons.prems x False
      have "scenario_loop calc inc m xs out (acc @ [(name, res)]) = (out', Inr rs)" by simp
      from Cons.IH [OF this] False x show ?thesis by simp
    qed
  qed
qed

lemma scenario_loop_cong_nonneg:
  assumes "\<And>p rt. 0 \<le> p \<Longrightarrow> f inc p m rt = g inc p m rt"
  shows "scenario_loop f inc m xs out acc = scenario_loop g inc m xs out acc"
proof (induction xs arbitrary: out acc)
  case Nil
  show ?case by simp
next
  case (Cons x xs)
  obtain name ps where x: "x = (name, ps)" by (cases x)
  show ?case
  proof (cases "params.deposit ps < 0")
    case True
    with x Cons.IH show ?thesis by simp
  next
    case False
    then have "f inc (params.deposit ps) m (params.rate ps) = g inc (params.deposit ps) m (params.rate ps)"
      using assms by simp
    with x False Cons.IH show ?thesis by (simp split: sum.splits)
  qed
qed

text \<open>
  The run on the three fixed scenarios, computed. With a deposit that is not negative
  and a nonzero income every call of the calculator returns; with income zero the
  first call, for the base case, raises after the header line has been printed.
\<close>

lemma run_scenario_testing_nonzero_income:
  assumes "0 \<le> dep" and "inc \<noteq> 0"
  shows "\<exists>b h l. calculate_affordability inc dep m r = Inr b \<and>
           calculate_affordability inc dep m (r + 1.5) = Inr h \<and>
           calculate_affordability inc (dep - 10000) m r = Inr l \<and>
           run_scenario_testing inc dep m r =
             (if dep - 10000 < 0
              then ([header_message,
                     skip_message (''Lower Deposit (-'' @ [CHR 0xA3] @ ''10,000)'')],
                    Inr [(''Base Case'', b), (''High Interest Rate (+1.5%)'', h)])
              else ([header_message],
                    Inr [(''Base Case'', b), (''High Interest Rate (+1.5%)'', h),
                         (''Lower Deposit (-'' @ [CHR 0xA3] @ ''10,000)'', l)]))"
proof -
  obtain b where b: "calculate_affordability inc dep m r = Inr b"
    using calculate_affordability_returns [OF assms(2)] by blast
  obtain h where h: "calculate_affordability inc dep m (r + 1.5) = Inr h"
    using calculate_affordability_returns [OF assms(2)] by blast
  obtain l where l: "calculate_affordability inc (dep - 10000) m r = Inr l"
    using calculate_affordability_returns [OF assms(2)] by blast
  have "\<not> dep < 0" using assms(1) by simp
  then show ?thesis
    using b h l by (simp add: run_scenario_testing_def scenarios_def)
qed


text \<open>
  C6. For every input to \<open>run_scenario_testing\<close>, a scenario whose perturbed deposit
  is negative is omitted from the returned sequence (its skip message is printed
  instead) and is not computed: the outcome is the same for every calculator that
  agrees with \<open>calculate_affordability\<close> on the deposits that are not negative. In
  particular, for deposit 5000 the "Lower Deposit" scenario is absent from any result,
  and with a nonzero income the result is the base case and the high-rate case.
  The third label is spelled as in the source, with the ASCII hyphen-minus.
\<close>

theorem negative_deposit_scenario_omitted:
  "(\<forall>out rs. run_scenario_testing inc dep m r = (out, Inr rs) \<longrightarrow>
      (\<forall>(name, ps) \<in> set (scenarios r dep). params.deposit ps < 0 \<longrightarrow>
         name \<notin> fst ` set rs \<and> skip_message name \<in> set out)) \<and>
   (\<forall>calc. (\<forall>p rt. 0 \<le> p \<longrightarrow> calc inc p m rt = calculate_affordability inc p m rt) \<longrightarrow>
      scenario_loop calc inc m (scenarios r dep) [header_message] [] =
        run_scenario_testing inc dep m r) \<and>
   (\<forall>out rs. run_scenario_testing inc 5000 m r = (out, Inr rs) \<longrightarrow>
      ''Lower Deposit (-'' @ [CHR 0xA3] @ ''10,000)'' \<notin> fst ` set rs) \<and>
   (inc \<noteq> 0 \<longrightarrow>
      (\<exists>b h. snd (run_scenario_testing inc 5000 m r) =
         Inr [(''Base Case'', b), (''High Interest Rate (+1.5%)'', h)]))"
proof (intro conjI allI impI)
  fix out rs
  assume run: "run_scenario_testing inc dep m r = (out, Inr rs)"
  then have loop: "scenario_loop calculate_affordability inc m (scenarios r dep) [header_message] []
      = (out, Inr rs)"
    by (simp add: run_scenario_testing_def)
  have labels: "set (map fst rs) =
      set (map fst (filter (\<lambda>(name, ps). \<not> params.deposit ps < 0) (scenarios r dep)))"
    using scenario_loop_labels [OF loop] by simp
  have printed: "set out = set ([header_message] @
      map (\<lambda>(name, ps). skip_message name)
        (filter (\<lambda>(name, ps). params.deposit ps < 0) (scenarios r dep)))"
    using scenario_loop_skipped_printed [OF loop] by simp
  show "\<forall>(name, ps) \<in> set (scenarios r dep). params.deposit ps < 0 \<longrightarrow>
         name \<notin> fst ` set rs \<and> skip_message name \<in> set out"
    unfolding set_map [symmetric] labels printed
    by (auto simp: scenarios_def)
next
  fix calc
  assume "\<forall>p rt. 0 \<le> p \<longrightarrow> calc inc p m rt = calculate_affordability inc p m rt"
  then have "\<And>p rt. 0 \<le> p \<Longrightarrow> calc inc p m rt = calculate_affordability inc p m rt"
    by blast
  from scenario_loop_cong_nonneg [of calc inc m calculate_affordability, OF this]
  show "scenario_loop calc inc m (scenarios r dep) [header_message] [] =
        run_scenario_testing inc dep m r"
    by (simp add: run_scenario_testing_def)
next
  fix out rs
  assume run: "run_scenario_testing inc 5000 m r = (out, Inr rs)"
  then have loop: "scenario_loop calculate_affordability inc m (scenarios r 5000) [header_message] []
      = (out, Inr rs)"
    by (simp add: run_scenario_testing_def)
  have "set (map fst rs) =
      set (map fst (filter (\<lambda>(name, ps). \<not> params.deposit ps < 0) (scenarios r 5000)))"
    using scenario_loop_labels [OF loop] by simp
  then show "''Lower Deposit (-'' @ [CHR 0xA3] @ ''10,000)'' \<notin> fst ` set rs"
    unfolding set_map [symmetric] by (simp add: scenarios_def)
next
  assume ne: "inc \<noteq> 0"
  have "(0::real) \<le> 5000" by simp
  from run_scenario_testing_nonzero_income [OF this ne, of m r]
  show "\<exists>b h. snd (run_scenario_testing inc 5000 m r) =
         Inr [(''Base Case'', b), (''High Interest Rate (+1.5%)'', h)]"
    by auto
qed

theorem negative_deposit_scenario_omitted_witness:
  "\<exists>out rs. run_scenario_testing 60000 5000 300 5 = (out, Inr rs) \<and>
      map fst rs = [''Base Case'', ''High Interest Rate (+1.5%)''] \<and>
      ''Lower Deposit (-'' @ [CHR 0xA3] @ ''10,000)'' \<notin> fst ` set rs \<and>
      skip_message (''Lower Deposit (-'' @ [CHR 0xA3] @ ''10,000)'') \<in> set out \<and>
      scenario_loop
        (\<lambda>i p m rt. if 0 \<le> p then calculate_affordability i p m rt else Inl ZeroDivisionError)
        60000 300 (scenarios 5 5000) [header_message] [] = (out, Inr rs)"
proof -
  note inst = negative_deposit_scenario_omitted [of 60000 5000 300 5]
  have ne: "(60000::real) \<noteq> 0" by simp
  from inst ne obtain b h where
    snd_run: "snd (run_scenario_testing 60000 5000 300 5) =
      Inr [(''Base Case'', b), (''High Interest Rate (+1.5%)'', h)]"
    by blast
  define out where "out = fst (run_scenario_testing 60000 5000 300 5)"
  define rs where "rs = [(''Base Case'', b), (''High Interest Rate (+1.5%)'', h)]"
  have run: "run_scenario_testing 60000 5000 300 5 = (out, Inr rs)"
    using snd_run by (simp add: out_def rs_def prod_eq_iff)
  have mem: "(''Lower Deposit (-'' @ [CHR 0xA3] @ ''10,000)'', \<lparr>rate = 5, deposit = 5000 - 10000\<rparr>)
      \<in> set (scenarios 5 5000)"
    by (simp add: scenarios_def)
  from inst run have "\<forall>(name, ps) \<in> set (scenarios 5 5000). params.deposit ps < 0 \<longrightarrow>
         name \<notin> fst ` set rs \<and> skip_message name \<in> set out"
    by blast
  from bspec [OF this mem]
  have skipped: "''Lower Deposit (-'' @ [CHR 0xA3] @ ''10,000)'' \<notin> fst ` set rs \<and>
      skip_message (''Lower Deposit (-'' @ [CHR 0xA3] @ ''10,000)'') \<in> set out"
    by simp
  from inst have indep: "(\<forall>p rt. 0 \<le> p \<longrightarrow>
        calc 60000 p 300 rt = calculate_affordability 60000 p 300 rt) \<longrightarrow>
      scenario_loop calc 60000 300 (scenarios 5 5000) [header_message] [] =
        run_scenario_testing 60000 5000 300 5" for calc
    by blast
  have "scenario_loop
        (\<lambda>i p m rt. if 0 \<le> p then calculate_affordability i p m rt else Inl ZeroDivisionError)
        60000 300 (scenarios 5 5000) [header_message] [] = run_scenario_testing 60000 5000 300 5"
    by (rule indep [THEN mp]) simp
  with run skipped show ?thesis by (auto simp: rs_def)
qed







end
